theory Spec2Isabelle
  imports Main "HOL-Library.Sublist" "HOL-Library.Word"
begin

unbundle bit_operations_syntax

section \<open>Python values used by fetch\_litecore\_base.py\<close>

text \<open>
  Python strings are modelled as \<^typ>\<open>string\<close>; a text that is not ASCII is held as its
  UTF-8 bytes. Every exception the script can meet is a value of \<open>error\<close>; a function
  that can raise returns \<open>error + 'a\<close>, with \<open>Inl\<close> for the exception.
\<close>

datatype error =
    ValueError
  | IndexError
  | KeyError
  | UnicodeDecodeError
  | BadZipFile
  | ReadError
  | FileNotFoundError
  | FileExistsError
  | NotADirectoryError
  | IsADirectoryError
  | OSError
  | RuntimeError
  | EOFError

text \<open>\<open>s.find(sub)\<close>: the lowest index at which \<open>sub\<close> starts in \<open>s\<close>, or \<open>-1\<close>.\<close>

fun str_find :: "string \<Rightarrow> string \<Rightarrow> int" where
  "str_find [] sub = (if sub = [] then 0 else - 1)"
| "str_find (x # xs) sub =
     (if prefix sub (x # xs) then 0
      else (let i = str_find xs sub in if i = - 1 then - 1 else i + 1))"

text \<open>\<open>s.index(sub)\<close>: as \<open>find\<close>, but raises \<open>ValueError\<close> when \<open>sub\<close> is absent.\<close>

definition str_index :: "string \<Rightarrow> string \<Rightarrow> error + nat" where
  "str_index s sub = (let i = str_find s sub in if i = - 1 then Inl ValueError else Inr (nat i))"

text \<open>
  \<open>s.replace(old, new)\<close>: every occurrence of \<open>old\<close>, found from the left without
  overlap, is replaced; an empty \<open>old\<close> matches before every character and at the end.
\<close>

fun replace_nonempty :: "string \<Rightarrow> string \<Rightarrow> string \<Rightarrow> string" where
  "replace_nonempty [] old new = []"
| "replace_nonempty (x # xs) old new =
     (if old \<noteq> [] \<and> prefix old (x # xs)
      then new @ replace_nonempty (drop (length old) (x # xs)) old new
      else x # replace_nonempty xs old new)"

definition str_replace :: "string \<Rightarrow> string \<Rightarrow> string \<Rightarrow> string" where
  "str_replace s old new =
     (if old = [] then new @ concat (map (\<lambda>c. c # new) s) else replace_nonempty s old new)"

section \<open>VariantSplitter: \<open>variant_to_pair\<close>\<close>

text \<open>
  The two-item sequence the function returns is a pair. \<open>variant[0:first_dash]\<close> and
  \<open>variant[first_dash+1:]\<close> are \<open>take\<close> and \<open>drop\<close>.
\<close>

definition variant_to_pair :: "string \<Rightarrow> error + string \<times> string" where
  "variant_to_pair variant =
     (if variant = ''linux'' \<or> variant = ''centos6'' then Inr (variant, ''x86_64'')
      else if variant = ''macosx'' then Inr (''macos'', '''')
      else if prefix ''ios'' variant then Inr (''ios'', '''')
      else
        (case str_index variant ''-'' of
           Inl e \<Rightarrow> Inl e
         | Inr first_dash \<Rightarrow>
             (let osname = take first_dash variant;
                  abi = drop (first_dash + 1) variant
              in if osname = ''android'' then Inr (osname, abi)
                 else if str_find abi ''win64'' \<noteq> - 1
                   then Inr (''windows'', str_replace abi ''win64'' ''x86_64'')
                 else Inr (osname, abi))))"

section \<open>FilenameResolver: \<open>filename_for_platform\<close>\<close>

text \<open>
  \<open>s.split(sep)\<close>: the pieces of \<open>s\<close> between the occurrences of \<open>sep\<close>, found from
  the left without overlap; the result is never empty. An empty separator raises
  \<open>ValueError\<close>.
\<close>

fun split_nonempty :: "string \<Rightarrow> string \<Rightarrow> string list" where
  "split_nonempty [] sep = [[]]"
| "split_nonempty (x # xs) sep =
     (if sep \<noteq> [] \<and> prefix sep (x # xs)
      then [] # split_nonempty (drop (length sep) (x # xs)) sep
      else (case split_nonempty xs sep of
              [] \<Rightarrow> [[x]]
            | p # ps \<Rightarrow> (x # p) # ps))"

definition str_split :: "string \<Rightarrow> string \<Rightarrow> error + string list" where
  "str_split s sep = (if sep = [] then Inl ValueError else Inr (split_nonempty s sep))"

text \<open>\<open>xs[i]\<close> for an index that is not negative: \<open>IndexError\<close> past the end.\<close>

definition list_get :: "'a list \<Rightarrow> nat \<Rightarrow> error + 'a" where
  "list_get xs i = (if i < length xs then Inr (xs ! i) else Inl IndexError)"

text \<open>
  \<open>build\<close> defaults to \<open>None\<close>. The edition is computed before the f-string reads
  \<open>build_parts[0]\<close> and \<open>build_parts[1]\<close>, in that order.
\<close>

definition filename_for_platform :: "string \<Rightarrow> bool \<Rightarrow> string option \<Rightarrow> error + string" where
  "filename_for_platform platform0 debug build =
     (let platform = (if platform0 = ''ios/net'' then ''ios'' else platform0);
          debug_str = (if debug then ''-debug'' else []);
          ext = (if platform = ''linux'' \<or> platform = ''centos6'' then ''tar.gz'' else ''zip'')
      in case build of
           Some b \<Rightarrow>
             (case str_split b ''-'' of
                Inl e \<Rightarrow> Inl e
              | Inr build_parts \<Rightarrow>
                  (let edition =
                         (if length build_parts > 2 \<and> list_get build_parts 2 = Inr ''EE''
                          then ''enterprise'' else ''community'')
                   in case list_get build_parts 0 of
                        Inl e \<Rightarrow> Inl e
                      | Inr part0 \<Rightarrow>
                          (case list_get build_parts 1 of
                             Inl e \<Rightarrow> Inl e
                           | Inr part1 \<Rightarrow>
                               Inr (''couchbase-lite-core-'' @ edition @ ''-'' @ part0 @ ''-'' @ part1
                                    @ ''-'' @ platform @ debug_str @ ''.'' @ ext))))
         | None \<Rightarrow> Inr (''couchbase-lite-core-'' @ platform @ debug_str @ ''.'' @ ext))"

section \<open>VariantExpander: \<open>calculate_variants\<close>\<close>

text \<open>
  \<open>original\<close> is iterated once: it is the list of its tokens in iteration order. The
  result is a Python set. \<open>variants_step\<close> is the body of the loop.
\<close>

definition variants_step :: "string \<Rightarrow> string set \<Rightarrow> string set" where
  "variants_step v final_variants =
     (if v = ''dotnet'' then
        final_variants \<union> {''linux'', ''android-x86_64'', ''android-x86'', ''android-armeabi-v7a'',
          ''android-arm64-v8a'', ''macosx'', ''ios/net'', ''windows-win64'', ''windows-arm64''}
      else if v = ''android'' then
        final_variants \<union> {''android-x86_64'', ''android-x86'', ''android-armeabi-v7a'',
          ''android-arm64-v8a''}
      else if v = ''java'' then final_variants \<union> {''linux'', ''macosx'', ''windows-win64''}
      else if v = ''windows'' then final_variants \<union> {''windows-win64'', ''windows-arm64''}
      else if v = ''macos'' then final_variants \<union> {''macosx''}
      else final_variants \<union> {v})"

fun variants_loop :: "string list \<Rightarrow> string set \<Rightarrow> string set" where
  "variants_loop [] final_variants = final_variants"
| "variants_loop (v # vs) final_variants = variants_loop vs (variants_step v final_variants)"

definition calculate_variants :: "string list \<Rightarrow> string set" where
  "calculate_variants original = variants_loop original {}"

text \<open>
  The table of section 4.1 of the specification, in its own words: each meta-variant with
  the variants it stands for; a token that is not in the table stands for itself.
\<close>

definition expansion_table :: "(string \<times> string list) list" where
  "expansion_table =
     [(''dotnet'', [''linux'', ''android-x86_64'', ''android-x86'', ''android-armeabi-v7a'',
                    ''android-arm64-v8a'', ''macosx'', ''ios/net'', ''windows-win64'',
                    ''windows-arm64'']),
      (''android'', [''android-x86_64'', ''android-x86'', ''android-armeabi-v7a'',
                     ''android-arm64-v8a'']),
      (''java'', [''linux'', ''macosx'', ''windows-win64'']),
      (''windows'', [''windows-win64'', ''windows-arm64'']),
      (''macos'', [''macosx''])]"

definition expand_token :: "string \<Rightarrow> string set" where
  "expand_token t = (case map_of expansion_table t of Some vs \<Rightarrow> set vs | None \<Rightarrow> {t})"

definition expand :: "string set \<Rightarrow> string set" where
  "expand S = (\<Union>t\<in>S. expand_token t)"

definition meta_variants :: "string set" where
  "meta_variants = fst ` set expansion_table"

section \<open>Paths\<close>

text \<open>
  A \<open>pathlib.Path\<close> of the POSIX flavour: the anchor is empty for a relative path, \<open>/\<close>
  for an absolute one, and \<open>//\<close> when the text starts with exactly two slashes; the names
  are the components between slashes, without the empty ones and without \<open>.\<close>.
\<close>

record path =
  anchor :: string
  names :: "string list"

definition path_anchor :: "string \<Rightarrow> string" where
  "path_anchor s =
     (if prefix ''/'' s then (if prefix ''//'' s \<and> \<not> prefix ''///'' s then ''//'' else ''/'')
      else [])"

definition Path :: "string \<Rightarrow> path" where
  "Path s = \<lparr>anchor = path_anchor s,
             names = filter (\<lambda>x. x \<noteq> [] \<and> x \<noteq> ''.'') (split_nonempty s ''/'')\<rparr>"

definition is_absolute :: "path \<Rightarrow> bool" where
  "is_absolute p = (anchor p \<noteq> [])"

text \<open>\<open>p.joinpath(q)\<close>: an absolute \<open>q\<close> replaces \<open>p\<close>; a relative one is appended.\<close>

definition joinpath :: "path \<Rightarrow> path \<Rightarrow> path" where
  "joinpath p q = (if is_absolute q then q else p\<lparr>names := names p @ names q\<rparr>)"

text \<open>\<open>sep.join(xs)\<close> and \<open>str(p)\<close>.\<close>

fun str_join :: "string \<Rightarrow> string list \<Rightarrow> string" where
  "str_join sep [] = []"
| "str_join sep [x] = x"
| "str_join sep (x # y # ys) = x @ sep @ str_join sep (y # ys)"

definition path_str :: "path \<Rightarrow> string" where
  "path_str p =
     (if anchor p = [] \<and> names p = [] then ''.'' else anchor p @ str_join ''/'' (names p))"

text \<open>\<open>os.path.join(a, b)\<close> on POSIX.\<close>

definition os_path_join :: "string \<Rightarrow> string \<Rightarrow> string" where
  "os_path_join a b =
     (if prefix ''/'' b then b
      else if a = [] \<or> suffix ''/'' a then a @ b
      else a @ ''/'' @ b)"

section \<open>The file system, the network and the module's globals\<close>

text \<open>
  An entry of a zip archive: its name, the 32 bits of external attributes stored in the
  central directory, and its content.
\<close>

record zipinfo =
  filename :: string
  external_attr :: "32 word"
  data :: string

text \<open>
  What a file holds: a zip archive with its entries in archive order, or bytes that are
  not a zip archive. A node of the file system is a directory, a file or a symbolic link
  with its target. The file system is keyed by the text of a path: the same file spelled
  in two ways (a doubled or trailing slash, a \<open>.\<close> or \<open>..\<close> component) is not identified.
\<close>

datatype content =
    Zip "zipinfo list"
  | Other string

datatype node = Dir | File content | Symlink string

type_synonym filesystem = "string \<Rightarrow> node option"

text \<open>
  The state the script changes: the file system and the trace of what it did to the
  outside, in order: lines written to standard output, trees removed, directories
  created, URLs requested, symbolic links created, zip entries extracted and tar archives
  extracted. A call that raises leaves no event but the request, which is recorded when
  it is sent.
\<close>

datatype event =
    Printed string
  | Removed string
  | Created string
  | Requested string string
  | Linked string string
  | Extracted zipinfo string
  | Untarred string string

record world =
  fs :: filesystem
  trace :: "event list"

text \<open>
  What the script reads and does not change. \<open>has_platform\<close> and \<open>quiet\<close> are the
  module's globals and \<open>subdirectory_for_variant\<close> is the imported platform extension,
  called only when \<open>has_platform\<close> is set; it may raise. The rest is the system and the
  library, each with the exception it may raise: \<open>getcwd\<close> is \<open>os.getcwd()\<close>;
  \<open>resolve\<close> is \<open>Path.resolve\<close> on a path without a NUL character, which follows the
  symbolic links of the file system and raises on a loop of links; \<open>follow\<close> gives the
  directory or file a path that is a symbolic link leads to, if any; \<open>remote\<close> is what
  the server answers to a GET, a body or the exception \<open>urlretrieve\<close> raises;
  \<open>zip_extract\<close> is \<open>ZipFile.extract\<close> of one entry into a directory, and
  \<open>tar_extractall\<close> is \<open>tarfile.open(src, "r:gz")\<close> followed by \<open>extractall(dest)\<close>.
  What the operating system refuses for a reason the file system of the model does not
  show (permissions, a full disk) is not modelled.
\<close>

datatype failure = HTTPError int | Raised error

record env =
  has_platform :: bool
  subdirectory_for_variant :: "string \<Rightarrow> string \<Rightarrow> error + string"
  quiet :: bool
  getcwd :: "error + string"
  resolve :: "filesystem \<Rightarrow> path \<Rightarrow> error + path"
  follow :: "filesystem \<Rightarrow> string \<Rightarrow> node option"
  remote :: "string \<Rightarrow> failure + content"
  zip_extract :: "zipinfo \<Rightarrow> string \<Rightarrow> filesystem \<Rightarrow> error + filesystem"
  tar_extractall :: "string \<Rightarrow> string \<Rightarrow> filesystem \<Rightarrow> error + filesystem"

definition emit :: "event \<Rightarrow> world \<Rightarrow> world" where
  "emit ev w = w\<lparr>trace := trace w @ [ev]\<rparr>"

definition print :: "string \<Rightarrow> world \<Rightarrow> world" where
  "print msg w = emit (Printed msg) w"

definition conditional_print :: "env \<Rightarrow> string \<Rightarrow> world \<Rightarrow> world" where
  "conditional_print E msg w = (if quiet E then w else print msg w)"

text \<open>
  A path with a NUL character is refused by every call of the operating system with
  \<open>ValueError\<close>.
\<close>

definition has_nul :: "string \<Rightarrow> bool" where
  "has_nul s = (CHR 0x00 \<in> set s)"

text \<open>\<open>os.path.dirname(p)\<close> on POSIX.\<close>

definition dirname :: "string \<Rightarrow> string" where
  "dirname p =
     (let head = rev (dropWhile (\<lambda>c. c \<noteq> CHR ''/'') (rev p))
      in if head \<noteq> [] \<and> \<not> list_all (\<lambda>c. c = CHR ''/'') head
         then rev (dropWhile (\<lambda>c. c = CHR ''/'') (rev head))
         else head)"

definition is_root :: "string \<Rightarrow> bool" where
  "is_root p = (p \<noteq> [] \<and> list_all (\<lambda>c. c = CHR ''/'') p)"

text \<open>
  \<open>lstat\<close> looks at the node itself and \<open>stat\<close> follows a symbolic link; the root
  directory always exists.
\<close>

definition lstat :: "filesystem \<Rightarrow> string \<Rightarrow> node option" where
  "lstat files p = (if is_root p then Some Dir else files p)"

definition stat :: "env \<Rightarrow> filesystem \<Rightarrow> string \<Rightarrow> node option" where
  "stat E files p =
     (case lstat files p of
        Some (Symlink t) \<Rightarrow>
          (case follow E files p of
             Some (Symlink t') \<Rightarrow> None
           | n \<Rightarrow> n)
      | n \<Rightarrow> n)"

text \<open>
  The error of creating an entry at \<open>p\<close> that comes from the directory it is to lie in;
  a path without a slash lies in the working directory.
\<close>

definition parent_error :: "env \<Rightarrow> filesystem \<Rightarrow> string \<Rightarrow> error option" where
  "parent_error E files p =
     (let d = dirname p
      in if d = [] then None
         else (case stat E files d of
                 None \<Rightarrow> Some FileNotFoundError
               | Some Dir \<Rightarrow> None
               | Some other \<Rightarrow> Some NotADirectoryError))"

section \<open>PathResolver: \<open>calculate_download_path\<close>\<close>

text \<open>
  \<open>Path.resolve\<close> raises \<open>ValueError\<close> on a path with a NUL character; otherwise the
  environment resolves it.
\<close>

definition path_resolve :: "env \<Rightarrow> filesystem \<Rightarrow> path \<Rightarrow> error + path" where
  "path_resolve E files p = (if has_nul (path_str p) then Inl ValueError else resolve E files p)"

text \<open>
  The working directory is asked for only when the base is relative, before the variant
  is split; the extension is called only when it is loaded.
\<close>

definition calculate_download_path :: "env \<Rightarrow> world \<Rightarrow> string \<Rightarrow> string \<Rightarrow> error + path" where
  "calculate_download_path E w variant output_base =
     (let output_base_path0 = Path output_base
      in case (if \<not> is_absolute output_base_path0
               then (case getcwd E of
                       Inl e \<Rightarrow> Inl e
                     | Inr cwd \<Rightarrow> Inr (joinpath (Path cwd) output_base_path0))
               else Inr output_base_path0) of
           Inl e \<Rightarrow> Inl e
         | Inr output_base_path \<Rightarrow>
             (case variant_to_pair variant of
                Inl e \<Rightarrow> Inl e
              | Inr variant_pair \<Rightarrow>
                  (case (if has_platform E
                         then subdirectory_for_variant E (fst variant_pair) (snd variant_pair)
                         else Inr (fst variant_pair @ ''/'' @ snd variant_pair)) of
                     Inl e \<Rightarrow> Inl e
                   | Inr subdirectory \<Rightarrow>
                       path_resolve E (fs w) (joinpath output_base_path (Path subdirectory)))))"

section \<open>Zip extraction: \<open>unzip\<close>\<close>

text \<open>
  \<open>zipfile.ZipFile(src, 'r')\<close>: opening raises \<open>FileNotFoundError\<close> when there is no
  such file, \<open>IsADirectoryError\<close> on a directory and \<open>BadZipFile\<close> on a file that is not
  a zip archive.
\<close>

definition zip_open :: "env \<Rightarrow> world \<Rightarrow> string \<Rightarrow> error + zipinfo list" where
  "zip_open E w src =
     (if has_nul src then Inl ValueError
      else (case stat E (fs w) src of
              None \<Rightarrow> Inl FileNotFoundError
            | Some Dir \<Rightarrow> Inl IsADirectoryError
            | Some (File (Zip infolist)) \<Rightarrow> Inr infolist
            | Some (File (Other bytes)) \<Rightarrow> Inl BadZipFile
            | Some (Symlink t) \<Rightarrow> Inl FileNotFoundError))"

text \<open>
  \<open>zip.read(name)\<close> looks the name up in the archive's table of names, where a later
  entry of the same name has replaced an earlier one; a name that is absent raises
  \<open>KeyError\<close>.
\<close>

definition zip_read :: "zipinfo list \<Rightarrow> string \<Rightarrow> error + string" where
  "zip_read infolist name =
     (case filter (\<lambda>z. filename z = name) infolist of
        [] \<Rightarrow> Inl KeyError
      | z # zs \<Rightarrow> Inr (data (last (z # zs))))"

text \<open>
  \<open>bytes.decode('utf-8')\<close>: a text is held as its UTF-8 bytes, so decoding returns the
  bytes when they are well-formed UTF-8 and raises \<open>UnicodeDecodeError\<close> otherwise.
\<close>

definition byte_in :: "char \<Rightarrow> nat \<Rightarrow> nat \<Rightarrow> bool" where
  "byte_in c lo hi = (lo \<le> of_char c \<and> of_char c \<le> hi)"

fun valid_utf8 :: "string \<Rightarrow> bool" where
  "valid_utf8 [] = True"
| "valid_utf8 (a # bs) =
     (if byte_in a 0x00 0x7F then valid_utf8 bs
      else if byte_in a 0xC2 0xDF then
        (case bs of b # r \<Rightarrow> byte_in b 0x80 0xBF \<and> valid_utf8 r | _ \<Rightarrow> False)
      else if byte_in a 0xE0 0xEF then
        (case bs of
           b # c # r \<Rightarrow>
             byte_in b (if a = char_of (0xE0 :: nat) then 0xA0 else 0x80)
                       (if a = char_of (0xED :: nat) then 0x9F else 0xBF)
             \<and> byte_in c 0x80 0xBF \<and> valid_utf8 r
         | _ \<Rightarrow> False)
      else if byte_in a 0xF0 0xF4 then
        (case bs of
           b # c # d # r \<Rightarrow>
             byte_in b (if a = char_of (0xF0 :: nat) then 0x90 else 0x80)
                       (if a = char_of (0xF4 :: nat) then 0x8F else 0xBF)
             \<and> byte_in c 0x80 0xBF \<and> byte_in d 0x80 0xBF \<and> valid_utf8 r
         | _ \<Rightarrow> False)
      else False)"

definition decode_utf8 :: "string \<Rightarrow> error + string" where
  "decode_utf8 bs = (if valid_utf8 bs then Inr bs else Inl UnicodeDecodeError)"

text \<open>
  \<open>os.symlink(src, dst)\<close> creates the link and nothing else: it raises
  \<open>FileExistsError\<close> when there is something at \<open>dst\<close> already, and
  \<open>FileNotFoundError\<close> when the directory \<open>dst\<close> is to lie in does not exist or the
  target is empty.
\<close>

definition os_symlink :: "env \<Rightarrow> string \<Rightarrow> string \<Rightarrow> world \<Rightarrow> (error + unit) \<times> world" where
  "os_symlink E src dst w =
     (if has_nul src \<or> has_nul dst then (Inl ValueError, w)
      else if src = [] \<or> dst = [] then (Inl FileNotFoundError, w)
      else if lstat (fs w) dst \<noteq> None then (Inl FileExistsError, w)
      else (case parent_error E (fs w) dst of
              Some e \<Rightarrow> (Inl e, w)
            | None \<Rightarrow> (Inr (), emit (Linked src dst) (w\<lparr>fs := (fs w)(dst \<mapsto> Symlink src)\<rparr>))))"

definition extract_entry :: "env \<Rightarrow> zipinfo \<Rightarrow> string \<Rightarrow> world \<Rightarrow> (error + unit) \<times> world" where
  "extract_entry E zi dest w =
     (case zip_extract E zi dest (fs w) of
        Inl e \<Rightarrow> (Inl e, w)
      | Inr files \<Rightarrow> (Inr (), emit (Extracted zi dest) (w\<lparr>fs := files\<rparr>)))"

definition SYMLINK_TYPE :: "32 word" where
  "SYMLINK_TYPE = 0xA"

text \<open>The body of the loop of \<open>unzip\<close>, for one entry of the archive \<open>infolist\<close>.\<close>

definition unzip_entry ::
  "env \<Rightarrow> zipinfo list \<Rightarrow> string \<Rightarrow> zipinfo \<Rightarrow> world \<Rightarrow> (error + unit) \<times> world" where
  "unzip_entry E infolist dest zi w =
     (if drop_bit 28 (external_attr zi) = SYMLINK_TYPE then
        (case zip_read infolist (filename zi) of
           Inl e \<Rightarrow> (Inl e, w)
         | Inr raw \<Rightarrow>
             (case decode_utf8 raw of
                Inl e \<Rightarrow> (Inl e, w)
              | Inr linkpath \<Rightarrow>
                  (let destpath = os_path_join dest (filename zi)
                   in os_symlink E linkpath destpath w)))
      else extract_entry E zi dest w)"

fun unzip_loop ::
  "env \<Rightarrow> zipinfo list \<Rightarrow> string \<Rightarrow> zipinfo list \<Rightarrow> world \<Rightarrow> (error + unit) \<times> world" where
  "unzip_loop E infolist dest [] w = (Inr (), w)"
| "unzip_loop E infolist dest (zi # rest) w =
     (case unzip_entry E infolist dest zi w of
        (Inl e, w') \<Rightarrow> (Inl e, w')
      | (Inr u, w') \<Rightarrow> unzip_loop E infolist dest rest w')"

definition unzip :: "env \<Rightarrow> string \<Rightarrow> string \<Rightarrow> world \<Rightarrow> (error + unit) \<times> world" where
  "unzip E src dest w =
     (case zip_open E w src of
        Inl e \<Rightarrow> (Inl e, w)
      | Inr infolist \<Rightarrow> unzip_loop E infolist dest infolist w)"

section \<open>ArtifactFetcher: \<open>download_variant\<close>\<close>

text \<open>\<open>os.path.exists(p)\<close> follows symbolic links and is false on a path it cannot read.\<close>

definition os_path_exists :: "env \<Rightarrow> world \<Rightarrow> string \<Rightarrow> bool" where
  "os_path_exists E w p = (\<not> has_nul p \<and> p \<noteq> [] \<and> stat E (fs w) p \<noteq> None)"

text \<open>\<open>inside p q\<close>: \<open>q\<close> is \<open>p\<close> or lies below the directory \<open>p\<close>.\<close>

definition inside :: "string \<Rightarrow> string \<Rightarrow> bool" where
  "inside p q = (q = p \<or> prefix (if suffix ''/'' p then p else p @ ''/'') q)"

text \<open>
  \<open>shutil.rmtree(p)\<close> removes a directory with all that lies below it; it raises
  \<open>NotADirectoryError\<close> on a file and \<open>OSError\<close> on a symbolic link.
\<close>

definition rmtree :: "string \<Rightarrow> world \<Rightarrow> (error + unit) \<times> world" where
  "rmtree p w =
     (if has_nul p then (Inl ValueError, w)
      else (case lstat (fs w) p of
              None \<Rightarrow> (Inl FileNotFoundError, w)
            | Some (Symlink t) \<Rightarrow> (Inl OSError, w)
            | Some (File c) \<Rightarrow> (Inl NotADirectoryError, w)
            | Some Dir \<Rightarrow>
                (Inr (), emit (Removed p) (w\<lparr>fs := (\<lambda>q. if inside p q then None else fs w q)\<rparr>))))"

text \<open>
  The directories above \<open>p\<close>, from the top: the parts of \<open>p\<close> that end before a slash.
\<close>

fun ancestors_from :: "string \<Rightarrow> string \<Rightarrow> string list" where
  "ancestors_from seen [] = []"
| "ancestors_from seen (c # rest) =
     (if c = CHR ''/'' \<and> seen \<noteq> [] \<and> last seen \<noteq> CHR ''/'' then [seen] else [])
     @ ancestors_from (seen @ [c]) rest"

definition ancestors :: "string \<Rightarrow> string list" where
  "ancestors p = ancestors_from [] p"

text \<open>
  \<open>os.makedirs(p)\<close> creates \<open>p\<close> and the directories above it that are missing. It
  raises \<open>FileExistsError\<close> when there is something at \<open>p\<close> already; otherwise the
  lowest entry that exists above \<open>p\<close> decides: a directory lets it succeed, a file gives
  \<open>NotADirectoryError\<close> and a link that leads nowhere \<open>FileNotFoundError\<close>.
\<close>

definition makedirs :: "env \<Rightarrow> string \<Rightarrow> world \<Rightarrow> (error + unit) \<times> world" where
  "makedirs E p w =
     (if has_nul p then (Inl ValueError, w)
      else if p = [] then (Inl FileNotFoundError, w)
      else if lstat (fs w) p \<noteq> None then (Inl FileExistsError, w)
      else (case (case filter (\<lambda>a. lstat (fs w) a \<noteq> None) (ancestors p) of
                    [] \<Rightarrow> None
                  | a # as \<Rightarrow>
                      (case stat E (fs w) (last (a # as)) of
                         None \<Rightarrow> Some FileNotFoundError
                       | Some Dir \<Rightarrow> None
                       | Some other \<Rightarrow> Some NotADirectoryError)) of
              Some e \<Rightarrow> (Inl e, w)
            | None \<Rightarrow>
                (Inr (),
                 emit (Created p)
                   (w\<lparr>fs := (\<lambda>q. if q = p then Some Dir
                                 else if q \<in> set (ancestors p) \<and> fs w q = None then Some Dir
                                 else fs w q)\<rparr>))))"

text \<open>
  \<open>open(p, 'wb')\<close> and the writing of the body: a directory at \<open>p\<close> gives
  \<open>IsADirectoryError\<close>, and the directory \<open>p\<close> is to lie in must exist.
\<close>

definition write_file :: "env \<Rightarrow> string \<Rightarrow> content \<Rightarrow> world \<Rightarrow> (error + unit) \<times> world" where
  "write_file E p body w =
     (if has_nul p then (Inl ValueError, w)
      else if p = [] then (Inl FileNotFoundError, w)
      else if stat E (fs w) p = Some Dir then (Inl IsADirectoryError, w)
      else (case parent_error E (fs w) p of
              Some e \<Rightarrow> (Inl e, w)
            | None \<Rightarrow> (Inr (), w\<lparr>fs := (fs w)(p \<mapsto> File body)\<rparr>)))"

text \<open>
  \<open>urlretrieve(url, filename)\<close> opens the URL first: when that raises, no file has been
  written.
\<close>

definition urlretrieve :: "env \<Rightarrow> string \<Rightarrow> string \<Rightarrow> world \<Rightarrow> (failure + unit) \<times> world" where
  "urlretrieve E url target w =
     (let w' = emit (Requested url target) w
      in case remote E url of
           Inl f \<Rightarrow> (Inl f, w')
         | Inr body \<Rightarrow>
             (case write_file E target body w' of
                (Inl e, w'') \<Rightarrow> (Inl (Raised e), w'')
              | (Inr u, w'') \<Rightarrow> (Inr (), w'')))"

definition untar :: "env \<Rightarrow> string \<Rightarrow> string \<Rightarrow> world \<Rightarrow> (error + unit) \<times> world" where
  "untar E src dest w =
     (case tar_extractall E src dest (fs w) of
        Inl e \<Rightarrow> (Inl e, w)
      | Inr files \<Rightarrow> (Inr (), emit (Untarred src dest) (w\<lparr>fs := files\<rparr>)))"

text \<open>\<open>str(n)\<close> for an integer, as the f-string formats \<open>e.code\<close>.\<close>

fun digits :: "nat \<Rightarrow> string" where
  "digits n = (if n < 10 then [''0123456789'' ! n]
               else digits (n div 10) @ [''0123456789'' ! (n mod 10)])"

definition str_int :: "int \<Rightarrow> string" where
  "str_int i = (if i < 0 then CHR ''-'' # digits (nat (- i)) else digits (nat i))"

text \<open>
  Only \<open>HTTPError\<close> is caught, around \<open>urlretrieve\<close>; every other exception leaves
  \<open>download_variant\<close> as it is raised.
\<close>

definition download_variant ::
  "env \<Rightarrow> string \<Rightarrow> string \<Rightarrow> string option \<Rightarrow> bool \<Rightarrow> string \<Rightarrow> world
     \<Rightarrow> (error + int) \<times> world" where
  "download_variant E download_folder variant build debug output_base w =
     (case filename_for_platform variant debug build of
        Inl e \<Rightarrow> (Inl e, w)
      | Inr name \<Rightarrow>
          (let download_url = download_folder @ ''/'' @ name
           in case calculate_download_path E w variant output_base of
                Inl e \<Rightarrow> (Inl e, w)
              | Inr download_path \<Rightarrow>
                  (let target = path_str download_path;
                       w1 = conditional_print E
                              (''--- Downloading '' @ name @ '' to '' @ target @ ''...'') w
                   in case (if os_path_exists E w1 target then rmtree target w1
                            else (Inr (), w1)) of
                        (Inl e, w2) \<Rightarrow> (Inl e, w2)
                      | (Inr u, w2) \<Rightarrow>
                          (case makedirs E target w2 of
                             (Inl e, w3) \<Rightarrow> (Inl e, w3)
                           | (Inr u, w3) \<Rightarrow>
                               (let full_path = target @ ''/'' @ name
                                in case urlretrieve E download_url full_path w3 of
                                     (Inl (HTTPError code), w4) \<Rightarrow>
                                       (Inr 1, print (''!!! Failed: '' @ str_int code) w4)
                                   | (Inl (Raised e), w4) \<Rightarrow> (Inl e, w4)
                                   | (Inr u, w4) \<Rightarrow>
                                       (if variant = ''ios/net'' then (Inr 0, w4)
                                        else
                                          (let w5 = conditional_print E
                                                      (''--- Extracting '' @ name @ ''...'') w4
                                           in if suffix ''tar.gz'' name
                                              then (case untar E full_path target w5 of
                                                      (Inl e, w6) \<Rightarrow> (Inl e, w6)
                                                    | (Inr u, w6) \<Rightarrow> (Inr 0, w6))
                                              else (case unzip E full_path target w5 of
                                                      (Inl e, w6) \<Rightarrow> (Inl e, w6)
                                                    | (Inr u, w6) \<Rightarrow> (Inr 0, w6)))))))))"

section \<open>A sample environment\<close>

text \<open>
  A build server that holds one zip archive, answers the request for the \<open>macosx\<close>
  archive with a page of text and any other request with 404, on a machine without a
  platform extension, where no path is a symbolic link before the script runs and
  \<open>ZipFile.extract\<close> writes the entry and makes the directory it lies in. The zip archive
  has a regular entry \<open>lib/foo.so\<close> and a symbolic link \<open>lib/libfoo.so\<close> to
  \<open>../lib/foo.so\<close>.
\<close>

definition sample_zip :: "zipinfo list" where
  "sample_zip =
     [\<lparr>filename = ''lib/foo.so'', external_attr = 0x81ED0000, data = ''ELF''\<rparr>,
      \<lparr>filename = ''lib/libfoo.so'', external_attr = 0xA1ED0000, data = ''../lib/foo.so''\<rparr>]"

definition sample_env :: env where
  "sample_env =
     \<lparr>has_platform = False,
      subdirectory_for_variant = (\<lambda>osname abi. Inr []),
      quiet = False,
      getcwd = Inr ''/home/build'',
      resolve = (\<lambda>files p. Inr p),
      follow = (\<lambda>files p. None),
      remote = (\<lambda>url.
        if url = ''http://host/couchbase-lite-core-windows-win64.zip'' then Inr (Zip sample_zip)
        else if url = ''http://host/couchbase-lite-core-macosx.zip''
          then Inr (Other ''<html>maintenance</html>'')
        else Inl (HTTPError 404)),
      zip_extract = (\<lambda>zi dest files.
        Inr (files(dirname (os_path_join dest (filename zi)) \<mapsto> Dir,
                   os_path_join dest (filename zi) \<mapsto> File (Other (data zi))))),
      tar_extractall = (\<lambda>src dest files. Inl ReadError)\<rparr>"

text \<open>A world in which the directory \<open>/out/windows/arm64\<close> holds a file of an earlier run.\<close>

definition sample_world :: world where
  "sample_world =
     \<lparr>fs = [''/out'' \<mapsto> Dir, ''/out/windows'' \<mapsto> Dir, ''/out/windows/arm64'' \<mapsto> Dir,
            ''/out/windows/arm64/old.dll'' \<mapsto> File (Other ''MZ'')],
      trace = []\<rparr>"

text \<open>
  An archive with the symbolic link alone, and a world with an archive at
  \<open>/tmp/a.zip\<close> and an empty directory \<open>/out\<close>.
\<close>

definition lonely_zip :: "zipinfo list" where
  "lonely_zip =
     [\<lparr>filename = ''lib/libfoo.so'', external_attr = 0xA1ED0000, data = ''../lib/foo.so''\<rparr>]"

definition archive_world :: "zipinfo list \<Rightarrow> world" where
  "archive_world infolist =
     \<lparr>fs = [''/tmp'' \<mapsto> Dir, ''/tmp/a.zip'' \<mapsto> File (Zip infolist), ''/out'' \<mapsto> Dir],
      trace = []\<rparr>"

section \<open>Facts about the string operations\<close>

lemma str_find_ge: "- 1 \<le> str_find s sub"
  by (induction s) (auto simp: Let_def)

lemma str_find_absent_iff: "str_find s sub = - 1 \<longleftrightarrow> \<not> (\<exists>xs ys. s = xs @ sub @ ys)"
proof (induction s)
  case Nil
  then show ?case by auto
next
  case (Cons x s)
  show ?case
  proof (cases "prefix sub (x # s)")
    case True
    then obtain ys where "x # s = sub @ ys" by (auto simp: prefix_def)
    then have "x # s = [] @ sub @ ys" by simp
    then have "\<exists>xs ys. x # s = xs @ sub @ ys" by blast
    with True show ?thesis by simp
  next
    case False
    have "(\<exists>xs ys. x # s = xs @ sub @ ys) \<longleftrightarrow> (\<exists>xs ys. s = xs @ sub @ ys)"
    proof
      assume "\<exists>xs ys. x # s = xs @ sub @ ys"
      then obtain xs ys where e: "x # s = xs @ sub @ ys" by blast
      show "\<exists>xs ys. s = xs @ sub @ ys"
      proof (cases xs)
        case Nil
        with e have "prefix sub (x # s)" by (simp add: prefix_def)
        with False show ?thesis by simp
      next
        case (Cons a as)
        with e have "s = as @ sub @ ys" by simp
        then show ?thesis by blast
      qed
    next
      assume "\<exists>xs ys. s = xs @ sub @ ys"
      then obtain xs ys where "s = xs @ sub @ ys" by blast
      then have "x # s = (x # xs) @ sub @ ys" by simp
      then show "\<exists>xs ys. x # s = xs @ sub @ ys" by blast
    qed
    with False Cons.IH str_find_ge [of s sub] show ?thesis
      by (auto simp: Let_def)
  qed
qed

lemma str_find_char:
  "str_find s [c] = (if c \<in> set s then int (length (takeWhile (\<lambda>d. d \<noteq> c) s)) else - 1)"
  by (induction s) (auto simp: Let_def)

lemma str_index_char:
  "str_index s [c] =
     (if c \<in> set s then Inr (length (takeWhile (\<lambda>d. d \<noteq> c) s)) else Inl ValueError)"
  by (simp add: str_index_def str_find_char Let_def)

lemma take_first: "take (length (takeWhile P s)) s = takeWhile P s"
  by (induction s) auto

lemma drop_first: "drop (length (takeWhile P s)) s = dropWhile P s"
  by (induction s) auto

lemma drop_after_first: "drop (length (takeWhile P s) + 1) s = tl (dropWhile P s)"
  by (simp add: drop_first drop_Suc tl_drop flip: drop_first)

lemma variant_to_pair_split:
  "variant_to_pair v =
     (if v = ''linux'' \<or> v = ''centos6'' then Inr (v, ''x86_64'')
      else if v = ''macosx'' then Inr (''macos'', '''')
      else if prefix ''ios'' v then Inr (''ios'', '''')
      else if CHR ''-'' \<notin> set v then Inl ValueError
      else
        (let osname = takeWhile (\<lambda>c. c \<noteq> CHR ''-'') v;
             abi = tl (dropWhile (\<lambda>c. c \<noteq> CHR ''-'') v)
         in if osname = ''android'' then Inr (osname, abi)
            else if \<exists>xs ys. abi = xs @ ''win64'' @ ys
              then Inr (''windows'', str_replace abi ''win64'' ''x86_64'')
            else Inr (osname, abi)))"
proof -
  let ?P = "\<lambda>c. c \<noteq> CHR ''-''"
  let ?n = "length (takeWhile ?P v)"
  have t: "take ?n v = takeWhile ?P v"
    by (rule take_first)
  have d: "drop (?n + 1) v = tl (dropWhile ?P v)"
    by (rule drop_after_first)
  have f: "(str_find abi ''win64'' \<noteq> - 1) = (\<exists>xs ys. abi = xs @ ''win64'' @ ys)" for abi
    using str_find_absent_iff [of abi "''win64''"] by blast
  show ?thesis
  proof (cases "CHR ''-'' \<in> set v")
    case True
    then have i: "str_index v ''-'' = Inr ?n"
      by (simp add: str_index_char)
    show ?thesis
      by (simp only: variant_to_pair_def i sum.case Let_def t d f True not_True_eq_False if_False)
  next
    case False
    then have i: "str_index v ''-'' = Inl ValueError"
      by (simp add: str_index_char)
    show ?thesis
      by (simp only: variant_to_pair_def i sum.case False not_False_eq_True if_True)
  qed
qed

section \<open>The claims about \<open>variant_to_pair\<close>\<close>


text \<open>
  C6. \<open>variant_to_pair\<close> fails exactly when the variant has no \<open>-\<close> and is none of the
  fixed names (\<open>linux\<close>, \<open>centos6\<close>, \<open>macosx\<close>, or a text that starts with \<open>ios\<close>); the
  failure is the \<open>ValueError\<close> of \<open>str.index\<close>, which the specification calls
  InvalidVariant. Every other variant gives a pair.
\<close>

theorem variant_to_pair_fails_iff:
  "(variant_to_pair v = Inl ValueError) =
     (CHR ''-'' \<notin> set v \<and> v \<noteq> ''linux'' \<and> v \<noteq> ''centos6'' \<and> v \<noteq> ''macosx''
      \<and> \<not> prefix ''ios'' v)
   \<and> (\<exists>p. variant_to_pair v = Inr p) =
     (\<not> (CHR ''-'' \<notin> set v \<and> v \<noteq> ''linux'' \<and> v \<noteq> ''centos6'' \<and> v \<noteq> ''macosx''
      \<and> \<not> prefix ''ios'' v))"
  unfolding variant_to_pair_split [of v] Let_def
  by (simp split: if_splits)

section \<open>The claims about \<open>filename_for_platform\<close>\<close>

lemma split_nonempty_not_Nil: "split_nonempty s sep \<noteq> []"
  by (induction s sep rule: split_nonempty.induct) (auto split: list.splits)

text \<open>
  Splitting at a character and joining with it again gives the text back, and no piece
  holds the character: the pieces are the segments the character delimits.
\<close>

lemma str_join_Cons: "str_join sep ((x # p) # ps) = x # str_join sep (p # ps)"
  by (cases ps) simp_all

lemma split_char_join: "str_join [c] (split_nonempty s [c]) = s"
proof (induction s)
  case Nil
  then show ?case by simp
next
  case (Cons x s)
  obtain p ps where split: "split_nonempty s [c] = p # ps"
    using split_nonempty_not_Nil [of s "[c]"] by (cases "split_nonempty s [c]") auto
  with Cons show ?case
    by (auto simp: str_join_Cons)
qed

lemma split_char_free: "p \<in> set (split_nonempty s [c]) \<Longrightarrow> c \<notin> set p"
proof (induction s arbitrary: p)
  case Nil
  then show ?case by simp
next
  case (Cons x s)
  obtain q qs where split: "split_nonempty s [c] = q # qs"
    using split_nonempty_not_Nil [of s "[c]"] by (cases "split_nonempty s [c]") auto
  with Cons show ?case
    by (auto split: if_splits)
qed

lemma length_split_char: "length (split_nonempty s [c]) = Suc (count_list s c)"
proof (induction s)
  case Nil
  then show ?case by simp
next
  case (Cons x s)
  obtain p ps where "split_nonempty s [c] = p # ps"
    using split_nonempty_not_Nil [of s "[c]"] by (cases "split_nonempty s [c]") auto
  with Cons show ?case by auto
qed

lemma filename_for_platform_build:
  "filename_for_platform v debug (Some b) =
     (let platform = (if v = ''ios/net'' then ''ios'' else v);
          debug_str = (if debug then ''-debug'' else []);
          ext = (if v = ''linux'' \<or> v = ''centos6'' then ''tar.gz'' else ''zip'');
          segments = split_nonempty b ''-''
      in if length segments < 2 then Inl IndexError
         else Inr (''couchbase-lite-core-''
                   @ (if length segments > 2 \<and> segments ! 2 = ''EE''
                      then ''enterprise'' else ''community'')
                   @ ''-'' @ segments ! 0 @ ''-'' @ segments ! 1
                   @ ''-'' @ platform @ debug_str @ ''.'' @ ext))"
proof -
  have "0 < length (split_nonempty b ''-'')"
    using split_nonempty_not_Nil [of b "''-''"] by simp
  then show ?thesis
    by (auto simp: filename_for_platform_def str_split_def list_get_def Let_def)
qed

text \<open>
  C2. For every variant, debug flag and optional build: \<open>ios/net\<close> is named \<open>ios\<close>; the
  debug suffix is \<open>-debug\<close> exactly when debug is set; the extension is \<open>tar.gz\<close> exactly
  for \<open>linux\<close> and \<open>centos6\<close>, else \<open>zip\<close>; without a build the name is
  \<open>couchbase-lite-core-{variant}{suffix}.{ext}\<close>; with a build, split at its hyphens, it
  is \<open>couchbase-lite-core-{edition}-{segment0}-{segment1}-{variant}{suffix}.{ext}\<close>, the
  edition being \<open>enterprise\<close> exactly when there are more than two segments and the third
  is \<open>EE\<close>, and the call fails when there are fewer than two segments. The three examples
  hold.
\<close>

theorem filename_for_platform_rules:
  "filename_for_platform v debug build =
     (let platform = (if v = ''ios/net'' then ''ios'' else v);
          debug_str = (if debug then ''-debug'' else []);
          ext = (if v = ''linux'' \<or> v = ''centos6'' then ''tar.gz'' else ''zip'')
      in case build of
           None \<Rightarrow> Inr (''couchbase-lite-core-'' @ platform @ debug_str @ ''.'' @ ext)
         | Some b \<Rightarrow>
             (let segments = split_nonempty b ''-'' in
              if length segments < 2 then Inl IndexError
              else Inr (''couchbase-lite-core-''
                        @ (if length segments > 2 \<and> segments ! 2 = ''EE''
                           then ''enterprise'' else ''community'')
                        @ ''-'' @ segments ! 0 @ ''-'' @ segments ! 1
                        @ ''-'' @ platform @ debug_str @ ''.'' @ ext)))
   \<and> filename_for_platform ''windows-win64'' False None
       = Inr ''couchbase-lite-core-windows-win64.zip''
   \<and> filename_for_platform ''linux'' True (Some ''3.1.0-97-EE'')
       = Inr ''couchbase-lite-core-enterprise-3.1.0-97-linux-debug.tar.gz''
   \<and> filename_for_platform ''macosx'' False (Some ''3.1.0-97'')
       = Inr ''couchbase-lite-core-community-3.1.0-97-macosx.zip''"
proof -
  have rules: "filename_for_platform v debug build =
     (let platform = (if v = ''ios/net'' then ''ios'' else v);
          debug_str = (if debug then ''-debug'' else []);
          ext = (if v = ''linux'' \<or> v = ''centos6'' then ''tar.gz'' else ''zip'')
      in case build of
           None \<Rightarrow> Inr (''couchbase-lite-core-'' @ platform @ debug_str @ ''.'' @ ext)
         | Some b \<Rightarrow>
             (let segments = split_nonempty b ''-'' in
              if length segments < 2 then Inl IndexError
              else Inr (''couchbase-lite-core-''
                        @ (if length segments > 2 \<and> segments ! 2 = ''EE''
                           then ''enterprise'' else ''community'')
                        @ ''-'' @ segments ! 0 @ ''-'' @ segments ! 1
                        @ ''-'' @ platform @ debug_str @ ''.'' @ ext)))"
  proof (cases build)
    case None
    then show ?thesis by (simp add: filename_for_platform_def Let_def)
  next
    case (Some b)
    then show ?thesis by (simp only: filename_for_platform_build Let_def option.case)
  qed
  have ex1: "filename_for_platform ''windows-win64'' False None
       = Inr ''couchbase-lite-core-windows-win64.zip''"
    by (simp add: filename_for_platform_def)
  have ex2: "filename_for_platform ''linux'' True (Some ''3.1.0-97-EE'')
       = Inr ''couchbase-lite-core-enterprise-3.1.0-97-linux-debug.tar.gz''"
    by (simp add: filename_for_platform_def str_split_def list_get_def)
  have ex3: "filename_for_platform ''macosx'' False (Some ''3.1.0-97'')
       = Inr ''couchbase-lite-core-community-3.1.0-97-macosx.zip''"
    by (simp add: filename_for_platform_def str_split_def list_get_def)
  from rules ex1 ex2 ex3 show ?thesis by (simp only: simp_thms)
qed

text \<open>
  C5. With a build given, \<open>filename_for_platform\<close> fails exactly when the build has fewer
  than two hyphen-delimited segments, that is when it holds no hyphen; the failure is the
  \<open>IndexError\<close> of \<open>build_parts[1]\<close>, which the specification calls
  MalformedBuildDescriptor. With two or more segments it returns a name, whatever the
  variant and the debug flag.
\<close>

theorem filename_for_platform_malformed_build:
  "(filename_for_platform v debug (Some b) = Inl IndexError) = (length (split_nonempty b ''-'') < 2)
   \<and> (\<exists>name. filename_for_platform v debug (Some b) = Inr name)
       = (2 \<le> length (split_nonempty b ''-''))
   \<and> length (split_nonempty b ''-'') = Suc (count_list b (CHR ''-''))"
  unfolding filename_for_platform_build [of v debug b] Let_def
  by (simp add: length_split_char not_less)

section \<open>The claims about \<open>calculate_variants\<close>\<close>

lemma variants_step_expand: "variants_step v acc = acc \<union> expand_token v"
  by (auto simp: variants_step_def expand_token_def expansion_table_def)

lemma variants_loop_expand: "variants_loop vs acc = acc \<union> expand (set vs)"
  by (induction vs arbitrary: acc) (auto simp: variants_step_expand expand_def)

lemma calculate_variants_expand: "calculate_variants vs = expand (set vs)"
  by (simp add: calculate_variants_def variants_loop_expand)

lemma expand_token_leaf: "u \<in> expand_token t \<Longrightarrow> u \<notin> meta_variants"
  by (auto simp: expand_token_def expansion_table_def meta_variants_def
      split: option.splits if_splits)

lemma expand_token_of_leaf: "u \<notin> meta_variants \<Longrightarrow> expand_token u = {u}"
proof -
  assume "u \<notin> meta_variants"
  then have "map_of expansion_table u = None"
    unfolding meta_variants_def by (simp add: map_of_eq_None_iff)
  then show ?thesis by (simp add: expand_token_def)
qed

lemma expand_leaves: "expand S \<inter> meta_variants = {}"
  by (auto simp: expand_def dest: expand_token_leaf)

lemma expand_expand: "expand (expand S) = expand S"
proof -
  have "expand_token u = {u}" if "u \<in> expand S" for u
    using that expand_leaves [of S] by (intro expand_token_of_leaf) blast
  then have "(\<Union>u\<in>expand S. expand_token u) = (\<Union>u\<in>expand S. {u})"
    by simp
  then show ?thesis
    by (simp add: expand_def [of "expand S"])
qed

text \<open>
  C3. For every input, \<open>calculate_variants\<close> returns the union of the expansions of its
  tokens by the table of the specification: \<open>dotnet\<close> gives the nine listed variants,
  \<open>android\<close> the four android ABIs, \<open>java\<close> gives \<open>linux\<close>, \<open>macosx\<close> and
  \<open>windows-win64\<close>, \<open>windows\<close> gives \<open>windows-win64\<close> and \<open>windows-arm64\<close>, \<open>macos\<close> gives
  \<open>macosx\<close>, and any other token passes through unchanged, without an error; the result is
  a set, so duplicates collapse. The expansion of \<open>dotnet\<close> has exactly nine elements and
  does not hold \<open>dotnet\<close>.
\<close>

theorem calculate_variants_table:
  "calculate_variants original = expand (set original)
   \<and> calculate_variants [''dotnet''] =
       {''linux'', ''android-x86_64'', ''android-x86'', ''android-armeabi-v7a'',
        ''android-arm64-v8a'', ''macosx'', ''ios/net'', ''windows-win64'', ''windows-arm64''}
   \<and> calculate_variants [''android''] =
       {''android-x86_64'', ''android-x86'', ''android-armeabi-v7a'', ''android-arm64-v8a''}
   \<and> calculate_variants [''java''] = {''linux'', ''macosx'', ''windows-win64''}
   \<and> calculate_variants [''windows''] = {''windows-win64'', ''windows-arm64''}
   \<and> calculate_variants [''macos''] = {''macosx''}
   \<and> calculate_variants [t, t] = calculate_variants [t]
   \<and> (if t \<in> meta_variants then True else calculate_variants [t] = {t})
   \<and> card (calculate_variants [''dotnet'']) = 9
   \<and> ''dotnet'' \<notin> calculate_variants [''dotnet'']"
proof -
  have dotnet: "calculate_variants [''dotnet''] =
       {''linux'', ''android-x86_64'', ''android-x86'', ''android-armeabi-v7a'',
        ''android-arm64-v8a'', ''macosx'', ''ios/net'', ''windows-win64'', ''windows-arm64''}"
    by (simp add: calculate_variants_def variants_step_def)
  have others:
    "calculate_variants [''android''] =
       {''android-x86_64'', ''android-x86'', ''android-armeabi-v7a'', ''android-arm64-v8a''}"
    "calculate_variants [''java''] = {''linux'', ''macosx'', ''windows-win64''}"
    "calculate_variants [''windows''] = {''windows-win64'', ''windows-arm64''}"
    "calculate_variants [''macos''] = {''macosx''}"
    by (simp_all add: calculate_variants_def variants_step_def)
  have twice: "calculate_variants [t, t] = calculate_variants [t]"
    by (simp add: calculate_variants_expand)
  have leaf: "if t \<in> meta_variants then True else calculate_variants [t] = {t}"
    by (simp add: calculate_variants_expand expand_def expand_token_of_leaf)
  have nine: "card (calculate_variants [''dotnet'']) = 9"
    unfolding dotnet by simp
  have absent: "''dotnet'' \<notin> calculate_variants [''dotnet'']"
    unfolding dotnet by simp
  from calculate_variants_expand [of original] dotnet others twice leaf nine absent
  show ?thesis by (simp only: simp_thms)
qed

text \<open>
  C7. \<open>calculate_variants\<close> is idempotent: run again on its own result, in whatever order the
  result set is iterated, it returns the same set; and no element of a result is a
  meta-variant.
\<close>

theorem calculate_variants_idempotent:
  assumes "set again = calculate_variants original"
  shows "calculate_variants again = calculate_variants original
         \<and> calculate_variants original \<inter> meta_variants = {}"
  using assms by (simp add: calculate_variants_expand expand_expand expand_leaves)

theorem calculate_variants_idempotent_witness:
  "calculate_variants [''windows-arm64'', ''centos6'', ''windows-win64'', ''macosx'', ''linux'']
     = calculate_variants [''java'', ''centos6'', ''windows'', ''java'']
   \<and> calculate_variants [''java'', ''centos6'', ''windows'', ''java''] \<inter> meta_variants = {}"
proof -
  have "set [''windows-arm64'', ''centos6'', ''windows-win64'', ''macosx'', ''linux'']
          = calculate_variants [''java'', ''centos6'', ''windows'', ''java'']"
    by (auto simp: calculate_variants_def variants_step_def)
  from calculate_variants_idempotent [OF this] show ?thesis .
qed

section \<open>The world after each operation\<close>

lemma fs_emit [simp]: "fs (emit ev w) = fs w"
  by (simp add: emit_def)

lemma trace_emit [simp]: "trace (emit ev w) = trace w @ [ev]"
  by (simp add: emit_def)

lemma fs_print [simp]: "fs (print msg w) = fs w"
  by (simp add: print_def)

lemma trace_print [simp]: "trace (print msg w) = trace w @ [Printed msg]"
  by (simp add: print_def)

lemma fs_conditional_print [simp]: "fs (conditional_print E msg w) = fs w"
  by (simp add: conditional_print_def)

lemma trace_conditional_print [simp]:
  "trace (conditional_print E msg w) = trace w @ (if quiet E then [] else [Printed msg])"
  by (simp add: conditional_print_def)

lemma rmtree_done:
  assumes "rmtree p w = (Inr u, w')"
  shows "lstat (fs w) p = Some Dir"
    and "fs w' = (\<lambda>q. if inside p q then None else fs w q)"
    and "trace w' = trace w @ [Removed p]"
  using assms by (auto simp: rmtree_def split: if_splits option.splits node.splits)

lemma makedirs_done:
  assumes "makedirs E p w = (Inr u, w')"
  shows "lstat (fs w) p = None"
    and "fs w' = (\<lambda>q. if q = p then Some Dir
                      else if q \<in> set (ancestors p) \<and> fs w q = None then Some Dir
                      else fs w q)"
    and "trace w' = trace w @ [Created p]"
  using assms by (auto simp: makedirs_def split: if_splits option.splits)

lemma ancestors_from_prefix:
  "a \<in> set (ancestors_from seen rest) \<Longrightarrow> \<exists>xs ys. rest = xs @ ys \<and> ys \<noteq> [] \<and> a = seen @ xs"
proof (induction rest arbitrary: seen)
  case Nil
  then show ?case by simp
next
  case (Cons c rest)
  from Cons.prems consider "a = seen" | "a \<in> set (ancestors_from (seen @ [c]) rest)"
    by (auto split: if_splits)
  then show ?case
  proof cases
    case 1
    then have "c # rest = [] @ (c # rest) \<and> c # rest \<noteq> [] \<and> a = seen @ []" by simp
    then show ?thesis by blast
  next
    case 2
    from Cons.IH [OF 2] obtain xs ys where "rest = xs @ ys" "ys \<noteq> []" "a = (seen @ [c]) @ xs"
      by blast
    then have "c # rest = (c # xs) @ ys \<and> ys \<noteq> [] \<and> a = seen @ (c # xs)" by simp
    then show ?thesis by blast
  qed
qed

lemma ancestors_shorter: "a \<in> set (ancestors p) \<Longrightarrow> length a < length p"
  using ancestors_from_prefix [of a "[]" p] by (auto simp: ancestors_def)

lemma ancestors_not_inside: "a \<in> set (ancestors p) \<Longrightarrow> \<not> inside p a"
proof
  assume a: "a \<in> set (ancestors p)" and i: "inside p a"
  from a have short: "length a < length p" by (rule ancestors_shorter)
  from i short have "prefix (if suffix ''/'' p then p else p @ ''/'') a"
    by (auto simp: inside_def)
  then have "length (if suffix ''/'' p then p else p @ ''/'') \<le> length a"
    by (rule prefix_length_le)
  with short show False by (simp split: if_splits)
qed

section \<open>The claim about \<open>calculate_download_path\<close>\<close>




section \<open>The claims about \<open>download_variant\<close>\<close>

text \<open>
  A run of \<open>download_variant\<close> that returns 1 has cleared and created the target
  directory, has sent one request that the server answered with an HTTP error, and has
  printed the status code as its last act.
\<close>

lemma fst_result_not_1:
  "fst (case r of (Inl e, w') \<Rightarrow> (Inl e, w') | (Inr u, w') \<Rightarrow> (Inr 0, w')) \<noteq> Inr (1::int)"
  by (cases r; cases "fst r") auto

lemma download_variant_failed:
  assumes name: "filename_for_platform variant debug build = Inr name"
    and path: "calculate_download_path E w variant output_base = Inr download_path"
    and one: "fst (download_variant E download_folder variant build debug output_base w) = Inr 1"
  shows "\<exists>code w2 w3.
      (if os_path_exists E
            (conditional_print E
               (''--- Downloading '' @ name @ '' to '' @ path_str download_path @ ''...'') w)
            (path_str download_path)
       then rmtree (path_str download_path)
              (conditional_print E
                 (''--- Downloading '' @ name @ '' to '' @ path_str download_path @ ''...'') w)
       else (Inr (),
             conditional_print E
               (''--- Downloading '' @ name @ '' to '' @ path_str download_path @ ''...'') w))
        = (Inr (), w2)
      \<and> makedirs E (path_str download_path) w2 = (Inr (), w3)
      \<and> remote E (download_folder @ ''/'' @ name) = Inl (HTTPError code)
      \<and> snd (download_variant E download_folder variant build debug output_base w) =
          print (''!!! Failed: '' @ str_int code)
            (emit (Requested (download_folder @ ''/'' @ name)
                     (path_str download_path @ ''/'' @ name)) w3)"
proof -
  let ?target = "path_str download_path"
  let ?url = "download_folder @ ''/'' @ name"
  let ?full = "?target @ ''/'' @ name"
  let ?w1 = "conditional_print E (''--- Downloading '' @ name @ '' to '' @ ?target @ ''...'') w"
  define cleared where
    "cleared = (if os_path_exists E ?w1 ?target then rmtree ?target ?w1 else (Inr (), ?w1))"
  let ?rest = "\<lambda>w4. if variant = ''ios/net'' then (Inr 0, w4)
                    else (let w5 = conditional_print E (''--- Extracting '' @ name @ ''...'') w4
                          in if suffix ''tar.gz'' name
                             then (case untar E ?full ?target w5 of
                                     (Inl e, w6) \<Rightarrow> (Inl e, w6)
                                   | (Inr u, w6) \<Rightarrow> (Inr 0, w6))
                             else (case unzip E ?full ?target w5 of
                                     (Inl e, w6) \<Rightarrow> (Inl e, w6)
                                   | (Inr u, w6) \<Rightarrow> (Inr (0::int), w6)))"
  have rest: "fst (?rest w4) \<noteq> Inr 1" for w4
    by (simp add: Let_def fst_result_not_1)
  have run: "download_variant E download_folder variant build debug output_base w =
      (case cleared of
         (Inl e, w2) \<Rightarrow> (Inl e, w2)
       | (Inr u, w2) \<Rightarrow>
           (case makedirs E ?target w2 of
              (Inl e, w3) \<Rightarrow> (Inl e, w3)
            | (Inr u, w3) \<Rightarrow>
                (case urlretrieve E ?url ?full w3 of
                   (Inl (HTTPError code), w4) \<Rightarrow> (Inr 1, print (''!!! Failed: '' @ str_int code) w4)
                 | (Inl (Raised e), w4) \<Rightarrow> (Inl e, w4)
                 | (Inr u, w4) \<Rightarrow> ?rest w4)))"
    by (simp only: download_variant_def name path sum.case Let_def cleared_def)
  obtain r2 w2 where c: "cleared = (r2, w2)"
    by (cases cleared) blast
  show ?thesis
  proof (cases r2)
    case (Inl e)
    with run c one show ?thesis by simp
  next
    case r2: (Inr u2)
    obtain r3 w3 where m: "makedirs E ?target w2 = (r3, w3)"
      by (cases "makedirs E ?target w2") blast
    show ?thesis
    proof (cases r3)
      case (Inl e)
      with run c r2 m one show ?thesis by simp
    next
      case r3: (Inr u3)
      have after: "download_variant E download_folder variant build debug output_base w =
          (case urlretrieve E ?url ?full w3 of
             (Inl (HTTPError code), w4) \<Rightarrow> (Inr 1, print (''!!! Failed: '' @ str_int code) w4)
           | (Inl (Raised e), w4) \<Rightarrow> (Inl e, w4)
           | (Inr u, w4) \<Rightarrow> ?rest w4)"
        by (simp add: run c r2 m r3)
      show ?thesis
      proof (cases "remote E ?url")
        case (Inl f)
        then have u: "urlretrieve E ?url ?full w3 = (Inl f, emit (Requested ?url ?full) w3)"
          by (simp add: urlretrieve_def Let_def)
        show ?thesis
        proof (cases f)
          case (HTTPError code)
          with after u have "snd (download_variant E download_folder variant build debug output_base w)
              = print (''!!! Failed: '' @ str_int code) (emit (Requested ?url ?full) w3)"
            by simp
          with c r2 m r3 Inl HTTPError show ?thesis
            unfolding cleared_def by simp
        next
          case (Raised e)
          with after u one show ?thesis by simp
        qed
      next
        case (Inr body)
        obtain r4 w4 where wf: "write_file E ?full body (emit (Requested ?url ?full) w3) = (r4, w4)"
          by (cases "write_file E ?full body (emit (Requested ?url ?full) w3)") blast
        show ?thesis
        proof (cases r4)
          case (Inl e)
          with Inr wf have "urlretrieve E ?url ?full w3 = (Inl (Raised e), w4)"
            by (simp add: urlretrieve_def Let_def)
          with after one show ?thesis by simp
        next
          case r4: (Inr u4)
          with Inr wf have "urlretrieve E ?url ?full w3 = (Inr (), w4)"
            by (simp add: urlretrieve_def Let_def)
          with after have "download_variant E download_folder variant build debug output_base w
              = ?rest w4"
            by simp
          with one rest [of w4] show ?thesis by simp
        qed
      qed
    qed
  qed
qed

text \<open>
  After such a run over a target that was a directory, the target is an empty directory,
  and the removal and the re-creation come right before the request.
\<close>

lemma download_variant_failed_state:
  assumes name: "filename_for_platform variant debug build = Inr name"
    and path: "calculate_download_path E w variant output_base = Inr download_path"
    and dir: "fs w (path_str download_path) = Some Dir"
    and one: "fst (download_variant E download_folder variant build debug output_base w) = Inr 1"
  shows
    "fs (snd (download_variant E download_folder variant build debug output_base w))
          (path_str download_path) = Some Dir
     \<and> (\<forall>q. inside (path_str download_path) q \<and> q \<noteq> path_str download_path \<longrightarrow>
            fs (snd (download_variant E download_folder variant build debug output_base w)) q = None)
     \<and> (\<exists>before code.
            remote E (download_folder @ ''/'' @ name) = Inl (HTTPError code)
            \<and> trace (snd (download_variant E download_folder variant build debug output_base w)) =
              before
              @ [Removed (path_str download_path), Created (path_str download_path),
                 Requested (download_folder @ ''/'' @ name) (path_str download_path @ ''/'' @ name),
                 Printed (''!!! Failed: '' @ str_int code)])"
proof -
  let ?target = "path_str download_path"
  let ?w1 = "conditional_print E (''--- Downloading '' @ name @ '' to '' @ ?target @ ''...'') w"
  let ?request = "Requested (download_folder @ ''/'' @ name) (?target @ ''/'' @ name)"
  let ?after = "snd (download_variant E download_folder variant build debug output_base w)"
  from download_variant_failed [OF name path one] obtain code w2 w3 where
    cleared: "(if os_path_exists E ?w1 ?target then rmtree ?target ?w1 else (Inr (), ?w1)) = (Inr (), w2)"
    and made: "makedirs E ?target w2 = (Inr (), w3)"
    and reply: "remote E (download_folder @ ''/'' @ name) = Inl (HTTPError code)"
    and after: "?after = print (''!!! Failed: '' @ str_int code) (emit ?request w3)"
    by blast
  have removed: "rmtree ?target ?w1 = (Inr (), w2)"
  proof (rule ccontr)
    assume "rmtree ?target ?w1 \<noteq> (Inr (), w2)"
    with cleared have "w2 = ?w1"
      by (simp split: if_splits)
    with dir have "lstat (fs w2) ?target \<noteq> None"
      by (simp add: lstat_def)
    with makedirs_done(1) [OF made] show False
      by simp
  qed
  have fs2: "fs w2 = (\<lambda>q. if inside ?target q then None else fs w q)"
    using rmtree_done(2) [OF removed] by (simp cong: if_cong)
  have tr2: "trace w2 = trace ?w1 @ [Removed ?target]"
    using rmtree_done(3) [OF removed] by simp
  have fs3: "fs w3 = (\<lambda>q. if q = ?target then Some Dir
                      else if q \<in> set (ancestors ?target) \<and> fs w2 q = None then Some Dir
                      else fs w2 q)"
    by (rule makedirs_done(2) [OF made])
  have tr3: "trace w3 = trace w2 @ [Created ?target]"
    by (rule makedirs_done(3) [OF made])
  have here: "fs ?after ?target = Some Dir"
    by (simp add: after fs3)
  have below: "fs ?after q = None" if "inside ?target q" "q \<noteq> ?target" for q
  proof -
    from that(1) have "q \<notin> set (ancestors ?target)"
      using ancestors_not_inside [of q ?target] by blast
    with that show ?thesis
      by (simp add: after fs3 fs2)
  qed
  have "trace ?after = trace ?w1 @ [Removed ?target, Created ?target, ?request,
                                   Printed (''!!! Failed: '' @ str_int code)]"
    by (simp add: after tr3 tr2)
  with reply have order: "\<exists>before code.
            remote E (download_folder @ ''/'' @ name) = Inl (HTTPError code)
            \<and> trace ?after =
              before @ [Removed ?target, Created ?target, ?request,
                        Printed (''!!! Failed: '' @ str_int code)]"
    by blast
  from here below order show ?thesis
    by blast
qed


text \<open>
  Such a run is what happens when the server answers the request with an HTTP error, the
  target is a directory and the entries above it are directories.
\<close>

lemma download_variant_http_error:
  assumes name: "filename_for_platform variant debug build = Inr name"
    and path: "calculate_download_path E w variant output_base = Inr download_path"
    and dir: "fs w (path_str download_path) = Some Dir"
    and reply: "remote E (download_folder @ ''/'' @ name) = Inl (HTTPError code)"
    and clean: "\<not> has_nul (path_str download_path)" "\<not> is_root (path_str download_path)"
    and nonempty: "path_str download_path \<noteq> []"
    and above: "list_all (\<lambda>a. fs w a = Some Dir) (ancestors (path_str download_path))"
  shows "fst (download_variant E download_folder variant build debug output_base w) = Inr 1"
proof -
  let ?target = "path_str download_path"
  define w1 where
    "w1 = conditional_print E (''--- Downloading '' @ name @ '' to '' @ ?target @ ''...'') w"
  define w2 where
    "w2 = emit (Removed ?target) (w1\<lparr>fs := (\<lambda>q. if inside ?target q then None else fs w1 q)\<rparr>)"
  have fs1: "fs w1 = fs w"
    by (simp add: w1_def)
  have fs2: "fs w2 q = (if inside ?target q then None else fs w q)" for q
    by (simp add: w2_def fs1)
  from dir clean have l: "lstat (fs w1) ?target = Some Dir"
    by (simp add: lstat_def fs1)
  then have exists: "os_path_exists E w1 ?target"
    using clean nonempty by (simp add: os_path_exists_def stat_def)
  from l clean have removed: "rmtree ?target w1 = (Inr (), w2)"
    by (simp add: rmtree_def w2_def)
  have same: "fs w2 a = Some Dir" if "a \<in> set (ancestors ?target)" for a
  proof -
    from that have "\<not> inside ?target a" by (rule ancestors_not_inside)
    moreover from that above have "fs w a = Some Dir" by (simp add: list_all_iff)
    ultimately show ?thesis by (simp add: fs2)
  qed
  have gone: "lstat (fs w2) ?target = None"
    using clean by (simp add: lstat_def fs2 inside_def)
  have kept: "filter (\<lambda>a. lstat (fs w2) a \<noteq> None) (ancestors ?target) = ancestors ?target"
    by (rule filter_True) (simp add: lstat_def same)
  have top: "(case ancestors ?target of
                [] \<Rightarrow> None
              | a # as \<Rightarrow>
                  (case stat E (fs w2) (last (a # as)) of
                     None \<Rightarrow> Some FileNotFoundError
                   | Some Dir \<Rightarrow> None
                   | Some other \<Rightarrow> Some NotADirectoryError)) = None"
  proof (cases "ancestors ?target")
    case Nil
    then show ?thesis by simp
  next
    case (Cons a as)
    then have "last (a # as) \<in> set (ancestors ?target)"
      by (metis last_in_set list.distinct(1))
    then have "fs w2 (last (a # as)) = Some Dir"
      by (rule same)
    then have "stat E (fs w2) (last (a # as)) = Some Dir"
      by (simp add: stat_def lstat_def)
    with Cons show ?thesis by simp
  qed
  have "\<exists>w3. makedirs E ?target w2 = (Inr (), w3)"
    unfolding makedirs_def
    by (simp only: clean nonempty gone kept top if_False option.case simp_thms) blast
  then obtain w3 where made: "makedirs E ?target w2 = (Inr (), w3)"
    by blast
  have sent: "urlretrieve E (download_folder @ ''/'' @ name) (?target @ ''/'' @ name) w3
      = (Inl (HTTPError code), emit (Requested (download_folder @ ''/'' @ name) (?target @ ''/'' @ name)) w3)"
    using reply by (simp add: urlretrieve_def Let_def)
  show ?thesis
    by (simp only: download_variant_def name path sum.case Let_def exists [unfolded w1_def]
          if_True removed [unfolded w1_def] prod.case made sent failure.case fst_conv)
qed

text \<open>
  C10. Let the target be an existing directory. Whenever \<open>download_variant\<close> returns 1,
  the target is an empty directory afterwards: everything that was below it is gone and
  nothing has brought it back; the request was answered with an HTTP error, and the
  removal and the re-creation of the directory come right before the request in the
  trace, which ends with the line of the failure. And \<open>download_variant\<close> does return 1
  when the server answers with an HTTP error and the entries above the target are
  directories.
\<close>

theorem download_variant_failure_not_atomic:
  assumes name: "filename_for_platform variant debug build = Inr name"
    and path: "calculate_download_path E w variant output_base = Inr download_path"
    and dir: "fs w (path_str download_path) = Some Dir"
  shows
    "(fst (download_variant E download_folder variant build debug output_base w) = Inr 1 \<longrightarrow>
        fs (snd (download_variant E download_folder variant build debug output_base w))
          (path_str download_path) = Some Dir
        \<and> (\<forall>q. inside (path_str download_path) q \<and> q \<noteq> path_str download_path \<longrightarrow>
              fs (snd (download_variant E download_folder variant build debug output_base w)) q
                = None)
        \<and> (\<exists>before code.
              remote E (download_folder @ ''/'' @ name) = Inl (HTTPError code)
              \<and> trace (snd (download_variant E download_folder variant build debug output_base w)) =
                before
                @ [Removed (path_str download_path), Created (path_str download_path),
                   Requested (download_folder @ ''/'' @ name)
                     (path_str download_path @ ''/'' @ name),
                   Printed (''!!! Failed: '' @ str_int code)]))
     \<and> (remote E (download_folder @ ''/'' @ name) = Inl (HTTPError code)
          \<and> \<not> has_nul (path_str download_path) \<and> \<not> is_root (path_str download_path)
          \<and> path_str download_path \<noteq> []
          \<and> list_all (\<lambda>a. fs w a = Some Dir) (ancestors (path_str download_path)) \<longrightarrow>
        fst (download_variant E download_folder variant build debug output_base w) = Inr 1)"
  using download_variant_failed_state [OF name path dir]
    download_variant_http_error [OF name path dir]
  by blast

lemma sample_names:
  "filename_for_platform ''android-x86'' False None = Inr ''couchbase-lite-core-android-x86.zip''"
  "filename_for_platform ''windows-win64'' False None = Inr ''couchbase-lite-core-windows-win64.zip''"
  "filename_for_platform ''windows-arm64'' False None = Inr ''couchbase-lite-core-windows-arm64.zip''"
  "filename_for_platform ''macosx'' False None = Inr ''couchbase-lite-core-macosx.zip''"
  by (simp_all add: filename_for_platform_def)

lemma sample_paths:
  "calculate_download_path sample_env sample_world ''android-x86'' ''/out''
     = Inr \<lparr>anchor = ''/'', names = [''out'', ''android'', ''x86'']\<rparr>"
  "calculate_download_path sample_env sample_world ''windows-win64'' ''/out''
     = Inr \<lparr>anchor = ''/'', names = [''out'', ''windows'', ''x86_64'']\<rparr>"
  "calculate_download_path sample_env sample_world ''windows-arm64'' ''/out''
     = Inr \<lparr>anchor = ''/'', names = [''out'', ''windows'', ''arm64'']\<rparr>"
  "calculate_download_path sample_env sample_world ''macosx'' ''/out''
     = Inr \<lparr>anchor = ''/'', names = [''out'', ''macos'']\<rparr>"
  by (simp_all add: calculate_download_path_def variant_to_pair_def str_index_def str_replace_def
        Path_def path_anchor_def joinpath_def is_absolute_def path_resolve_def path_str_def
        has_nul_def sample_env_def Let_def)

lemma sample_targets:
  "path_str \<lparr>anchor = ''/'', names = [''out'', ''android'', ''x86'']\<rparr> = ''/out/android/x86''"
  "path_str \<lparr>anchor = ''/'', names = [''out'', ''windows'', ''x86_64'']\<rparr> = ''/out/windows/x86_64''"
  "path_str \<lparr>anchor = ''/'', names = [''out'', ''windows'', ''arm64'']\<rparr> = ''/out/windows/arm64''"
  "path_str \<lparr>anchor = ''/'', names = [''out'', ''macos'']\<rparr> = ''/out/macos''"
  by (simp_all add: path_str_def)

lemmas sample_eval =
  sample_targets sample_env_def sample_world_def
  conditional_print_def print_def emit_def os_path_exists_def has_nul_def stat_def lstat_def
  is_root_def rmtree_def inside_def makedirs_def ancestors_def urlretrieve_def write_file_def
  parent_error_def dirname_def unzip_def zip_open_def suffix_to_prefix str_int_def Let_def

text \<open>
  In the sample world the file \<open>old.dll\<close> of an earlier run is lost to a request that is
  answered 404.
\<close>

theorem download_variant_failure_not_atomic_witness:
  "fs sample_world ''/out/windows/arm64/old.dll'' = Some (File (Other ''MZ''))
   \<and> fst (download_variant sample_env ''http://host'' ''windows-arm64'' None False ''/out''
             sample_world) = Inr 1
   \<and> fs (snd (download_variant sample_env ''http://host'' ''windows-arm64'' None False ''/out''
                 sample_world)) ''/out/windows/arm64/old.dll'' = None
   \<and> fs (snd (download_variant sample_env ''http://host'' ''windows-arm64'' None False ''/out''
                 sample_world)) ''/out/windows/arm64'' = Some Dir"
proof -
  let ?path = "\<lparr>anchor = ''/'', names = [''out'', ''windows'', ''arm64'']\<rparr>"
  have old: "fs sample_world ''/out/windows/arm64/old.dll'' = Some (File (Other ''MZ''))"
    by (simp add: sample_world_def)
  have there: "fs sample_world (path_str ?path) = Some Dir"
    by (simp add: sample_targets sample_world_def)
  have below: "inside ''/out/windows/arm64'' ''/out/windows/arm64/old.dll''"
    by (simp add: inside_def suffix_to_prefix)
  have answered: "remote sample_env (''http://host'' @ ''/'' @ ''couchbase-lite-core-windows-arm64.zip'')
      = Inl (HTTPError 404)"
    by (simp add: sample_env_def)
  have clean: "\<not> has_nul (path_str ?path) \<and> \<not> is_root (path_str ?path) \<and> path_str ?path \<noteq> []
      \<and> list_all (\<lambda>a. fs sample_world a = Some Dir) (ancestors (path_str ?path))"
    by (simp add: sample_targets has_nul_def is_root_def ancestors_def sample_world_def)
  from download_variant_failure_not_atomic
         [OF sample_names(3) sample_paths(3) there, of "''http://host''" 404]
       answered clean old below
  show ?thesis
    by (simp add: sample_targets)
qed

text \<open>
  C8. The claim does not hold of the code when the extraction raises. On the sample
  server the GET for \<open>macosx\<close> succeeds with a body that is not an archive:
  \<open>download_variant\<close> then returns neither 0 nor 1, the \<open>BadZipFile\<close> of the extraction
  leaves it uncaught. The failure at the HTTP level, for \<open>android-x86\<close>, is caught and
  gives 1.
\<close>

theorem download_variant_escaping_error:
  "remote sample_env ''http://host/couchbase-lite-core-macosx.zip''
     = Inr (Other ''<html>maintenance</html>'')
   \<and> fst (download_variant sample_env ''http://host'' ''macosx'' None False ''/out'' sample_world)
     = Inl BadZipFile
   \<and> remote sample_env ''http://host/couchbase-lite-core-android-x86.zip'' = Inl (HTTPError 404)
   \<and> fst (download_variant sample_env ''http://host'' ''android-x86'' None False ''/out''
            sample_world) = Inr 1"
  unfolding download_variant_def sample_names sample_paths
  by (simp add: sample_eval)

section \<open>The claim about \<open>unzip\<close>\<close>

lemmas unzip_eval =
  unzip_def zip_open_def archive_world_def unzip_entry_def SYMLINK_TYPE_def zip_read_def
  decode_utf8_def byte_in_def os_path_join_def os_symlink_def extract_entry_def has_nul_def
  stat_def lstat_def is_root_def parent_error_def dirname_def suffix_to_prefix emit_def
  sample_env_def Let_def

text \<open>
  C9. The claim does not hold of the code for a marked entry in a directory that does
  not exist yet. For the archive with the link \<open>lib/libfoo.so\<close> alone, extracted into the
  empty directory \<open>/out\<close>, \<open>unzip\<close> raises \<open>FileNotFoundError\<close> and makes no link:
  \<open>os.symlink\<close> does not make \<open>/out/lib\<close>. In the sample archive the regular entry
  \<open>lib/foo.so\<close> comes first, its extraction makes the directory, and the link is made.
\<close>

theorem unzip_lonely_link:
  "fst (unzip sample_env ''/tmp/a.zip'' ''/out'' (archive_world lonely_zip)) = Inl FileNotFoundError
   \<and> fs (snd (unzip sample_env ''/tmp/a.zip'' ''/out'' (archive_world lonely_zip)))
        ''/out/lib/libfoo.so'' = None
   \<and> fst (unzip sample_env ''/tmp/a.zip'' ''/out'' (archive_world sample_zip)) = Inr ()
   \<and> fs (snd (unzip sample_env ''/tmp/a.zip'' ''/out'' (archive_world sample_zip)))
        ''/out/lib/libfoo.so'' = Some (Symlink ''../lib/foo.so'')"
proof -
  have a: "drop_bit 28 (0x81ED0000 :: 32 word) \<noteq> 0xA" "drop_bit 28 (0xA1ED0000 :: 32 word) = 0xA"
    by simp_all
  have lonely: "unzip sample_env ''/tmp/a.zip'' ''/out'' (archive_world lonely_zip)
      = (Inl FileNotFoundError, archive_world lonely_zip)"
    by (simp add: unzip_eval lonely_zip_def a)
  have full: "fst (unzip sample_env ''/tmp/a.zip'' ''/out'' (archive_world sample_zip)) = Inr ()
     \<and> fs (snd (unzip sample_env ''/tmp/a.zip'' ''/out'' (archive_world sample_zip)))
        ''/out/lib/libfoo.so'' = Some (Symlink ''../lib/foo.so'')"
    by (simp add: unzip_eval sample_zip_def a)
  from lonely full show ?thesis
    by (simp add: archive_world_def)
qed

end
